theory Spec2Isabelle
  imports Main "HOL-Library.Word"
begin

section \<open>Statistics data model (package stats)\<close>

text \<open>
  Go's \<open>uint64\<close> is a 64-bit word (subtraction wraps).  A \<open>float64\<close> is kept as its
  IEEE-754 binary64 bit pattern, so that the zero value of a field is the word \<open>0\<close>
  and the comparison \<open>x > 0\<close> can be decided exactly, NaN and negative zero included.
  A Go map is an association list: the order of the list is the order in which
  \<open>range\<close> happens to visit the entries, a lookup is \<open>map_of\<close>, and the nil map and
  the empty map are both \<open>[]\<close> (they read alike, and the code only reads them).
\<close>

type_synonym uint64 = "64 word"
type_synonym float64 = "64 word"
type_synonym time = int
type_synonym ('k, 'v) gomap = "('k \<times> 'v) list"

definition f64_gt_zero :: "float64 \<Rightarrow> bool" where
  \<comment> \<open>\<open>x > 0\<close> on binary64: sign bit clear, not zero, not a NaN (infinity is positive).\<close>
  "f64_gt_zero x \<longleftrightarrow> 0 < x \<and> x \<le> 0x7FF0000000000000"

record ConnectionStats =
  Total :: uint64
  Active :: uint64
  Failed :: uint64
  Closed :: uint64

record SourceStats =
  Total :: uint64
  Success :: uint64
  Failed :: uint64

record OperationStats =
  Total :: uint64
  Success :: uint64
  Failed :: uint64
  AvgLatencyMs :: float64

record RequestStats =
  Total :: uint64
  Success :: uint64
  Failed :: uint64
  Pending :: uint64
  BytesSent :: uint64
  BytesRecv :: uint64
  BySource :: "(string, SourceStats) gomap"
  ByOperation :: "(string, OperationStats) gomap"

record PerformanceStats =
  RequestsPerSecond :: float64
  AvgLatencyMs :: float64
  MinLatencyMs :: float64
  MaxLatencyMs :: float64
  P50LatencyMs :: float64
  P95LatencyMs :: float64
  P99LatencyMs :: float64

record ErrorInfo =
  Message :: string
  Code :: string
  Timestamp :: time
  Count :: uint64

record ErrorStats =
  Total :: uint64
  ByType :: "(string, uint64) gomap"
  ByInterface :: "(string, uint64) gomap"
  LastError :: "ErrorInfo option"

text \<open>
  Modelled from the spec: the declaration of \<open>InterfaceCheckStats\<close> is not among the
  sources (the declared \<open>EquipmentCheckStats.ByInterface\<close> is still a map to
  \<open>uint64\<close>).  The record has the fields that \<open>calculateEIRDelta\<close> and
  \<open>transformEIRStats\<close> read and write: a sub-record of the same counter shape
  with a per-result-code breakdown.
\<close>

record InterfaceCheckStats =
  Total :: uint64
  Success :: uint64
  Failed :: uint64
  ByResultCode :: "(int, uint64) gomap"

record EquipmentCheckStats =
  Total :: uint64
  Success :: uint64
  Failed :: uint64
  ByInterface :: "(string, InterfaceCheckStats) gomap"
  ByResultCode :: "(int, uint64) gomap"

record DatabaseOperationStats =
  Queries :: uint64
  Inserts :: uint64
  Updates :: uint64
  Deletes :: uint64
  Errors :: uint64
  AvgLatencyMs :: float64
  ActiveQueries :: uint64

record CacheStats =
  Hits :: uint64
  Misses :: uint64
  HitRate :: float64
  Size :: uint64
  MaxSize :: uint64
  Evictions :: uint64

record EIRStats =
  EquipmentChecks :: EquipmentCheckStats
  DatabaseOps :: DatabaseOperationStats
  CacheStats :: CacheStats
  ByEquipmentStatus :: "(string, uint64) gomap"

text \<open>
  A value of type \<open>interface{}\<close> stored in \<open>CustomMetrics\<close> or \<open>InterfaceStats\<close>:
  the dynamic types that occur in the repository, and one constructor for all others.
  A pointer is \<open>None\<close> when it is nil.
\<close>

datatype any =
    AnyNil
  | AnyEIRStatsPtr "EIRStats option"
  | AnyEIRStats EIRStats
  | AnyCacheStats CacheStats
  | AnyOther string

record ServiceStats =
  ServiceName :: string
  ServiceVersion :: string
  Uptime :: string
  Timestamp :: time
  Connections :: ConnectionStats
  Requests :: RequestStats
  Performance :: PerformanceStats
  Errors :: ErrorStats
  InterfaceStats :: "(string, any) gomap"
  CustomMetrics :: "(string, any) gomap"

datatype panic = NilPointerDereference | SliceBoundsOutOfRange

section \<open>Delta engine (scheduler.go)\<close>

definition safeSub64 :: "uint64 \<Rightarrow> uint64 \<Rightarrow> uint64" where
  "safeSub64 a b = (if a \<ge> b then a - b else 0)"

text \<open>\<open>m[key]\<close> on a map of counts: the zero value when the key is absent.\<close>

definition index64 :: "('k, uint64) gomap \<Rightarrow> 'k \<Rightarrow> uint64" where
  "index64 m key = (case map_of m key of None \<Rightarrow> 0 | Some v \<Rightarrow> v)"

definition zeroSourceStats :: SourceStats where
  "zeroSourceStats = \<lparr>SourceStats.Total = 0, Success = 0, Failed = 0\<rparr>"

definition zeroOperationStats :: OperationStats where
  "zeroOperationStats =
     \<lparr>OperationStats.Total = 0, Success = 0, Failed = 0, AvgLatencyMs = 0\<rparr>"

definition zeroInterfaceCheckStats :: InterfaceCheckStats where
  "zeroInterfaceCheckStats =
     \<lparr>InterfaceCheckStats.Total = 0, Success = 0, Failed = 0, ByResultCode = []\<rparr>"

definition indexSource :: "(string, SourceStats) gomap \<Rightarrow> string \<Rightarrow> SourceStats" where
  "indexSource m key = (case map_of m key of None \<Rightarrow> zeroSourceStats | Some v \<Rightarrow> v)"

definition indexOperation :: "(string, OperationStats) gomap \<Rightarrow> string \<Rightarrow> OperationStats" where
  "indexOperation m key = (case map_of m key of None \<Rightarrow> zeroOperationStats | Some v \<Rightarrow> v)"

definition indexInterface ::
  "(string, InterfaceCheckStats) gomap \<Rightarrow> string \<Rightarrow> InterfaceCheckStats" where
  "indexInterface m key = (case map_of m key of None \<Rightarrow> zeroInterfaceCheckStats | Some v \<Rightarrow> v)"

text \<open>
  \<open>calculateMapDelta64\<close> and \<open>calculateMapDeltaInt64\<close>: one pass over the current
  map; an entry is stored only when the saturated difference is positive.
\<close>

definition calculateMapDelta64 ::
  "(string, uint64) gomap \<Rightarrow> (string, uint64) gomap \<Rightarrow> (string, uint64) gomap" where
  "calculateMapDelta64 current prev =
     List.map_filter
       (\<lambda>(key, currVal).
          let prevVal = index64 prev key; diff = safeSub64 currVal prevVal
          in if diff > 0 then Some (key, diff) else None)
       current"

definition calculateMapDeltaInt64 ::
  "(int, uint64) gomap \<Rightarrow> (int, uint64) gomap \<Rightarrow> (int, uint64) gomap" where
  "calculateMapDeltaInt64 current prev =
     List.map_filter
       (\<lambda>(key, currVal).
          let prevVal = index64 prev key; diff = safeSub64 currVal prevVal
          in if diff > 0 then Some (key, diff) else None)
       current"

text \<open>
  The three loops that fill a map of sub-records, one entry per current key; the body
  of each stores a struct literal made from the current and the previous entry.
\<close>

definition sourceDelta :: "SourceStats \<Rightarrow> SourceStats \<Rightarrow> SourceStats" where
  "sourceDelta currStat prevStat =
     \<lparr>SourceStats.Total = safeSub64 (SourceStats.Total currStat) (SourceStats.Total prevStat),
      Success = safeSub64 (SourceStats.Success currStat) (SourceStats.Success prevStat),
      Failed = safeSub64 (SourceStats.Failed currStat) (SourceStats.Failed prevStat)\<rparr>"

definition deltaBySource ::
  "(string, SourceStats) gomap \<Rightarrow> (string, SourceStats) gomap \<Rightarrow> (string, SourceStats) gomap" where
  "deltaBySource current prev =
     map (\<lambda>(source, currStat). (source, sourceDelta currStat (indexSource prev source))) current"

definition operationDelta :: "OperationStats \<Rightarrow> OperationStats \<Rightarrow> OperationStats" where
  \<comment> \<open>The literal names three fields; \<open>AvgLatencyMs\<close> keeps its zero value.\<close>
  "operationDelta currStat prevStat =
     \<lparr>OperationStats.Total =
        safeSub64 (OperationStats.Total currStat) (OperationStats.Total prevStat),
      Success = safeSub64 (OperationStats.Success currStat) (OperationStats.Success prevStat),
      Failed = safeSub64 (OperationStats.Failed currStat) (OperationStats.Failed prevStat),
      AvgLatencyMs = 0\<rparr>"

definition deltaByOperation ::
  "(string, OperationStats) gomap \<Rightarrow> (string, OperationStats) gomap
     \<Rightarrow> (string, OperationStats) gomap" where
  "deltaByOperation current prev =
     map (\<lambda>(op, currStat). (op, operationDelta currStat (indexOperation prev op))) current"

definition interfaceDelta :: "InterfaceCheckStats \<Rightarrow> InterfaceCheckStats \<Rightarrow> InterfaceCheckStats" where
  "interfaceDelta currIf prevIf =
     \<lparr>InterfaceCheckStats.Total =
        safeSub64 (InterfaceCheckStats.Total currIf) (InterfaceCheckStats.Total prevIf),
      Success = safeSub64 (InterfaceCheckStats.Success currIf) (InterfaceCheckStats.Success prevIf),
      Failed = safeSub64 (InterfaceCheckStats.Failed currIf) (InterfaceCheckStats.Failed prevIf),
      ByResultCode =
        calculateMapDeltaInt64 (InterfaceCheckStats.ByResultCode currIf)
          (InterfaceCheckStats.ByResultCode prevIf)\<rparr>"

definition deltaByInterface ::
  "(string, InterfaceCheckStats) gomap \<Rightarrow> (string, InterfaceCheckStats) gomap
     \<Rightarrow> (string, InterfaceCheckStats) gomap" where
  "deltaByInterface current prev =
     map (\<lambda>(ifName, currIf). (ifName, interfaceDelta currIf (indexInterface prev ifName))) current"

text \<open>
  \<open>calculateEIRDelta\<close> takes and returns pointers.  With no previous block it returns
  the current pointer as it is (nil included); otherwise it reads through the current
  pointer, which panics when that is nil.  Fields the struct literal does not mention
  are zero in the result.
\<close>

definition calculateEIRDelta :: "EIRStats option \<Rightarrow> EIRStats option \<Rightarrow> panic + EIRStats option" where
  "calculateEIRDelta current prev =
     (case prev of
        None \<Rightarrow> Inr current
      | Some p \<Rightarrow>
          (case current of
             None \<Rightarrow> Inl NilPointerDereference
           | Some c \<Rightarrow>
               Inr (Some
                 \<lparr>EquipmentChecks =
                    \<lparr>EquipmentCheckStats.Total =
                       safeSub64 (EquipmentCheckStats.Total (EquipmentChecks c))
                         (EquipmentCheckStats.Total (EquipmentChecks p)),
                     Success =
                       safeSub64 (EquipmentCheckStats.Success (EquipmentChecks c))
                         (EquipmentCheckStats.Success (EquipmentChecks p)),
                     Failed =
                       safeSub64 (EquipmentCheckStats.Failed (EquipmentChecks c))
                         (EquipmentCheckStats.Failed (EquipmentChecks p)),
                     ByInterface =
                       deltaByInterface (EquipmentCheckStats.ByInterface (EquipmentChecks c))
                         (EquipmentCheckStats.ByInterface (EquipmentChecks p)),
                     ByResultCode = []\<rparr>,
                  DatabaseOps =
                    \<lparr>Queries = safeSub64 (Queries (DatabaseOps c)) (Queries (DatabaseOps p)),
                     Inserts = safeSub64 (Inserts (DatabaseOps c)) (Inserts (DatabaseOps p)),
                     Updates = safeSub64 (Updates (DatabaseOps c)) (Updates (DatabaseOps p)),
                     Deletes = safeSub64 (Deletes (DatabaseOps c)) (Deletes (DatabaseOps p)),
                     Errors = 0, AvgLatencyMs = 0, ActiveQueries = 0\<rparr>,
                  CacheStats =
                    \<lparr>Hits = safeSub64 (Hits (CacheStats c)) (Hits (CacheStats p)),
                     Misses = safeSub64 (Misses (CacheStats c)) (Misses (CacheStats p)),
                     HitRate = HitRate (CacheStats c),
                     Size = Size (CacheStats c),
                     MaxSize = 0, Evictions = 0\<rparr>,
                  ByEquipmentStatus =
                    calculateMapDelta64 (ByEquipmentStatus c) (ByEquipmentStatus p)\<rparr>)))"

text \<open>
  The delta of two snapshots that both exist: the struct literal of
  \<open>calculateDeltaStats\<close>, the two loops and the \<open>"eir"\<close> block.  The type assertion
  \<open>.(*EIRStats)\<close> succeeds on a pointer only, nil or not.
\<close>

definition prevEIROf :: "(string, any) gomap \<Rightarrow> EIRStats option" where
  \<comment> \<open>\<open>prevEIR\<close>: nil unless the previous \<open>"eir"\<close> entry is a \<open>*EIRStats\<close>.\<close>
  "prevEIROf prev = (case map_of prev ''eir'' of Some (AnyEIRStatsPtr p) \<Rightarrow> p | _ \<Rightarrow> None)"

definition deltaCustomMetrics ::
  "(string, any) gomap \<Rightarrow> (string, any) gomap \<Rightarrow> panic + (string, any) gomap" where
  "deltaCustomMetrics current prev =
     (case map_of current ''eir'' of
        Some (AnyEIRStatsPtr currEIR) \<Rightarrow>
          (let prevEIR = prevEIROf prev
           in case calculateEIRDelta currEIR prevEIR of
                Inl e \<Rightarrow> Inl e
              | Inr d \<Rightarrow> Inr [(''eir'', AnyEIRStatsPtr d)])
      | _ \<Rightarrow> Inr [])"

definition deltaLiteral :: "ServiceStats \<Rightarrow> ServiceStats \<Rightarrow> ServiceStats" where
  \<comment> \<open>The struct literal, with the two maps the loops after it fill; \<open>CustomMetrics\<close> is
      still the empty map.\<close>
  "deltaLiteral current prev =
     \<lparr>ServiceName = ServiceName current,
      ServiceVersion = ServiceVersion current,
      Uptime = Uptime current,
      Timestamp = ServiceStats.Timestamp current,
      Connections =
        \<lparr>ConnectionStats.Total =
           safeSub64 (ConnectionStats.Total (Connections current))
             (ConnectionStats.Total (Connections prev)),
         Active = Active (Connections current),
         Failed =
           safeSub64 (ConnectionStats.Failed (Connections current))
             (ConnectionStats.Failed (Connections prev)),
         Closed = 0\<rparr>,
      Requests =
        \<lparr>RequestStats.Total =
           safeSub64 (RequestStats.Total (Requests current))
             (RequestStats.Total (Requests prev)),
         Success =
           safeSub64 (RequestStats.Success (Requests current))
             (RequestStats.Success (Requests prev)),
         Failed =
           safeSub64 (RequestStats.Failed (Requests current))
             (RequestStats.Failed (Requests prev)),
         Pending = Pending (Requests current),
         BytesSent = 0,
         BytesRecv = 0,
         BySource = deltaBySource (BySource (Requests current)) (BySource (Requests prev)),
         ByOperation =
           deltaByOperation (ByOperation (Requests current)) (ByOperation (Requests prev))\<rparr>,
      Performance =
        \<lparr>RequestsPerSecond = RequestsPerSecond (Performance current),
         AvgLatencyMs = PerformanceStats.AvgLatencyMs (Performance current),
         MinLatencyMs = MinLatencyMs (Performance current),
         MaxLatencyMs = MaxLatencyMs (Performance current),
         P50LatencyMs = P50LatencyMs (Performance current),
         P95LatencyMs = P95LatencyMs (Performance current),
         P99LatencyMs = P99LatencyMs (Performance current)\<rparr>,
      Errors =
        \<lparr>ErrorStats.Total =
           safeSub64 (ErrorStats.Total (Errors current)) (ErrorStats.Total (Errors prev)),
         ByType = calculateMapDelta64 (ByType (Errors current)) (ByType (Errors prev)),
         ByInterface =
           calculateMapDelta64 (ErrorStats.ByInterface (Errors current))
             (ErrorStats.ByInterface (Errors prev)),
         LastError = None\<rparr>,
      InterfaceStats = [],
      CustomMetrics = []\<rparr>"

definition deltaOf :: "ServiceStats \<Rightarrow> ServiceStats \<Rightarrow> panic + ServiceStats" where
  "deltaOf current prev =
     (case deltaCustomMetrics (CustomMetrics current) (CustomMetrics prev) of
        Inl e \<Rightarrow> Inl e
      | Inr custom \<Rightarrow> Inr ((deltaLiteral current prev)\<lparr>CustomMetrics := custom\<rparr>))"

section \<open>Counter identifiers and their metadata\<close>

definition CounterTotalRequests :: int where
  "CounterTotalRequests = 1000"

definition CounterSuccessfulRequests :: int where
  "CounterSuccessfulRequests = 1001"

definition CounterFailedRequests :: int where
  "CounterFailedRequests = 1002"

definition CounterPendingRequests :: int where
  "CounterPendingRequests = 1003"

definition CounterDiameterTotal :: int where
  "CounterDiameterTotal = 1100"

definition CounterDiameterSuccess :: int where
  "CounterDiameterSuccess = 1101"

definition CounterDiameterFailed :: int where
  "CounterDiameterFailed = 1102"

definition CounterDiameterResultCode :: int where
  "CounterDiameterResultCode = 1103"

definition CounterHTTPTotal :: int where
  "CounterHTTPTotal = 1200"

definition CounterHTTPSuccess :: int where
  "CounterHTTPSuccess = 1201"

definition CounterHTTPFailed :: int where
  "CounterHTTPFailed = 1202"

definition CounterHTTPStatusCode :: int where
  "CounterHTTPStatusCode = 1203"

definition CounterRequestsPerSecond :: int where
  "CounterRequestsPerSecond = 1300"

definition CounterAvgLatencyMs :: int where
  "CounterAvgLatencyMs = 1301"

definition CounterMinLatencyMs :: int where
  "CounterMinLatencyMs = 1302"

definition CounterMaxLatencyMs :: int where
  "CounterMaxLatencyMs = 1303"

definition CounterP50LatencyMs :: int where
  "CounterP50LatencyMs = 1304"

definition CounterP95LatencyMs :: int where
  "CounterP95LatencyMs = 1305"

definition CounterP99LatencyMs :: int where
  "CounterP99LatencyMs = 1306"

definition CounterCacheHits :: int where
  "CounterCacheHits = 1400"

definition CounterCacheMisses :: int where
  "CounterCacheMisses = 1401"

definition CounterCacheHitRate :: int where
  "CounterCacheHitRate = 1402"

definition CounterCacheSize :: int where
  "CounterCacheSize = 1403"

definition CounterDBQueries :: int where
  "CounterDBQueries = 1500"

definition CounterDBInserts :: int where
  "CounterDBInserts = 1501"

definition CounterDBUpdates :: int where
  "CounterDBUpdates = 1502"

definition CounterDBDeletes :: int where
  "CounterDBDeletes = 1503"

definition CounterWhitelisted :: int where
  "CounterWhitelisted = 1600"

definition CounterBlacklisted :: int where
  "CounterBlacklisted = 1601"

definition CounterGreylisted :: int where
  "CounterGreylisted = 1602"

definition CounterActiveConnections :: int where
  "CounterActiveConnections = 1700"

definition CounterTotalConnections :: int where
  "CounterTotalConnections = 1701"

definition CounterFailedConnections :: int where
  "CounterFailedConnections = 1702"

record CounterMetadata =
  ID :: int
  Name :: string
  Description :: string
  Unit :: string
  Type :: string

definition GetCounterMetadata :: "CounterMetadata list" where
  "GetCounterMetadata =
     [\<lparr>ID = CounterTotalRequests, Name = ''total_requests'',
       Description = ''Total number of requests processed'', Unit = ''count'', Type = ''counter''\<rparr>,
      \<lparr>ID = CounterSuccessfulRequests, Name = ''successful_requests'',
       Description = ''Total number of successful requests'', Unit = ''count'', Type = ''counter''\<rparr>,
      \<lparr>ID = CounterFailedRequests, Name = ''failed_requests'',
       Description = ''Total number of failed requests'', Unit = ''count'', Type = ''counter''\<rparr>,
      \<lparr>ID = CounterPendingRequests, Name = ''pending_requests'',
       Description = ''Number of requests currently pending'', Unit = ''count'', Type = ''gauge''\<rparr>,
      \<lparr>ID = CounterDiameterTotal, Name = ''diameter_total'',
       Description = ''Total Diameter requests'', Unit = ''count'', Type = ''counter''\<rparr>,
      \<lparr>ID = CounterDiameterSuccess, Name = ''diameter_success'',
       Description = ''Successful Diameter requests'', Unit = ''count'', Type = ''counter''\<rparr>,
      \<lparr>ID = CounterDiameterFailed, Name = ''diameter_failed'',
       Description = ''Failed Diameter requests'', Unit = ''count'', Type = ''counter''\<rparr>,
      \<lparr>ID = CounterDiameterResultCode, Name = ''diameter_result_code'',
       Description = ''Diameter result code distribution'', Unit = ''count'', Type = ''counter''\<rparr>,
      \<lparr>ID = CounterHTTPTotal, Name = ''http_total'',
       Description = ''Total HTTP requests'', Unit = ''count'', Type = ''counter''\<rparr>,
      \<lparr>ID = CounterHTTPSuccess, Name = ''http_success'',
       Description = ''Successful HTTP requests'', Unit = ''count'', Type = ''counter''\<rparr>,
      \<lparr>ID = CounterHTTPFailed, Name = ''http_failed'',
       Description = ''Failed HTTP requests'', Unit = ''count'', Type = ''counter''\<rparr>,
      \<lparr>ID = CounterHTTPStatusCode, Name = ''http_status_code'',
       Description = ''HTTP status code distribution'', Unit = ''count'', Type = ''counter''\<rparr>,
      \<lparr>ID = CounterRequestsPerSecond, Name = ''requests_per_second'',
       Description = ''Request throughput rate'', Unit = ''requests/sec'', Type = ''gauge''\<rparr>,
      \<lparr>ID = CounterAvgLatencyMs, Name = ''avg_latency_ms'',
       Description = ''Average request latency'', Unit = ''milliseconds'', Type = ''gauge''\<rparr>,
      \<lparr>ID = CounterMinLatencyMs, Name = ''min_latency_ms'',
       Description = ''Minimum request latency'', Unit = ''milliseconds'', Type = ''gauge''\<rparr>,
      \<lparr>ID = CounterMaxLatencyMs, Name = ''max_latency_ms'',
       Description = ''Maximum request latency'', Unit = ''milliseconds'', Type = ''gauge''\<rparr>,
      \<lparr>ID = CounterP50LatencyMs, Name = ''p50_latency_ms'',
       Description = ''50th percentile latency'', Unit = ''milliseconds'', Type = ''gauge''\<rparr>,
      \<lparr>ID = CounterP95LatencyMs, Name = ''p95_latency_ms'',
       Description = ''95th percentile latency'', Unit = ''milliseconds'', Type = ''gauge''\<rparr>,
      \<lparr>ID = CounterP99LatencyMs, Name = ''p99_latency_ms'',
       Description = ''99th percentile latency'', Unit = ''milliseconds'', Type = ''gauge''\<rparr>,
      \<lparr>ID = CounterCacheHits, Name = ''cache_hits'',
       Description = ''Number of cache hits'', Unit = ''count'', Type = ''counter''\<rparr>,
      \<lparr>ID = CounterCacheMisses, Name = ''cache_misses'',
       Description = ''Number of cache misses'', Unit = ''count'', Type = ''counter''\<rparr>,
      \<lparr>ID = CounterCacheHitRate, Name = ''cache_hit_rate'',
       Description = ''Cache hit rate percentage'', Unit = ''percent'', Type = ''gauge''\<rparr>,
      \<lparr>ID = CounterCacheSize, Name = ''cache_size'',
       Description = ''Current cache size'', Unit = ''entries'', Type = ''gauge''\<rparr>,
      \<lparr>ID = CounterDBQueries, Name = ''db_queries'',
       Description = ''Total database queries'', Unit = ''count'', Type = ''counter''\<rparr>,
      \<lparr>ID = CounterDBInserts, Name = ''db_inserts'',
       Description = ''Total database inserts'', Unit = ''count'', Type = ''counter''\<rparr>,
      \<lparr>ID = CounterDBUpdates, Name = ''db_updates'',
       Description = ''Total database updates'', Unit = ''count'', Type = ''counter''\<rparr>,
      \<lparr>ID = CounterDBDeletes, Name = ''db_deletes'',
       Description = ''Total database deletes'', Unit = ''count'', Type = ''counter''\<rparr>,
      \<lparr>ID = CounterWhitelisted, Name = ''whitelisted'',
       Description = ''Whitelisted equipment checks'', Unit = ''count'', Type = ''counter''\<rparr>,
      \<lparr>ID = CounterBlacklisted, Name = ''blacklisted'',
       Description = ''Blacklisted equipment checks'', Unit = ''count'', Type = ''counter''\<rparr>,
      \<lparr>ID = CounterGreylisted, Name = ''greylisted'',
       Description = ''Greylisted equipment checks'', Unit = ''count'', Type = ''counter''\<rparr>,
      \<lparr>ID = CounterActiveConnections, Name = ''active_connections'',
       Description = ''Currently active connections'', Unit = ''count'', Type = ''gauge''\<rparr>,
      \<lparr>ID = CounterTotalConnections, Name = ''total_connections'',
       Description = ''Total connections established'', Unit = ''count'', Type = ''counter''\<rparr>,
      \<lparr>ID = CounterFailedConnections, Name = ''failed_connections'',
       Description = ''Failed connection attempts'', Unit = ''count'', Type = ''counter''\<rparr>]"


definition counterIDs :: "int list" where
  "counterIDs = map ID (filter (\<lambda>m. Type m = ''counter'') GetCounterMetadata)"

section \<open>Transformer (transformer.go)\<close>

text \<open>
  Modelled from the spec: the declarations of \<open>MetricRecord\<close> and
  \<open>TransformerConfig\<close> are not among the sources.  \<open>MetricRecord\<close> has the six
  fields \<open>createRecord\<close> fills; \<open>TransformerConfig\<close> the three the transformer
  reads or sets.  The \<open>Value\<close> of a record is a \<open>float64\<close>: either a float field
  passed on as it is, or the conversion \<open>float64(u)\<close> of a count, which is kept as
  the count it converts.
\<close>

datatype metric_value = OfUint64 uint64 | OfFloat64 float64

record MetricRecord =
  CounterID :: int
  Value :: metric_value
  CauseCode :: string
  Hostname :: string
  SystemName :: string
  Timestamp :: time

record TransformerConfig =
  SampleRate :: float64
  IncludeCounters :: "int list"
  ExcludeCounters :: "int list"

record Transformer =
  hostname :: string
  systemName :: string
  config :: TransformerConfig

definition NewTransformer :: "string \<Rightarrow> string \<Rightarrow> Transformer" where
  \<comment> \<open>\<open>SampleRate\<close> is 1.0; both lists are nil.\<close>
  "NewTransformer h sys =
     \<lparr>hostname = h, systemName = sys,
      config = \<lparr>SampleRate = 0x3FF0000000000000, IncludeCounters = [], ExcludeCounters = []\<rparr>\<rparr>"

definition NewTransformerWithConfig :: "string \<Rightarrow> string \<Rightarrow> TransformerConfig \<Rightarrow> Transformer" where
  "NewTransformerWithConfig h sys cfg = \<lparr>hostname = h, systemName = sys, config = cfg\<rparr>"

definition createRecord :: "Transformer \<Rightarrow> int \<Rightarrow> metric_value \<Rightarrow> string \<Rightarrow> time \<Rightarrow> MetricRecord" where
  "createRecord t counterID v causeCode timestamp =
     \<lparr>CounterID = counterID, Value = v, CauseCode = causeCode,
      Hostname = hostname t, SystemName = systemName t, Timestamp = timestamp\<rparr>"

text \<open>The loops of \<open>isIncluded\<close> and \<open>isExcluded\<close>: a linear search.\<close>

primrec searchID :: "int list \<Rightarrow> int \<Rightarrow> bool" where
  "searchID [] counterID = False"
| "searchID (id' # ids) counterID = (if id' = counterID then True else searchID ids counterID)"

definition isIncluded :: "Transformer \<Rightarrow> int \<Rightarrow> bool" where
  "isIncluded t counterID = searchID (IncludeCounters (config t)) counterID"

definition isExcluded :: "Transformer \<Rightarrow> int \<Rightarrow> bool" where
  "isExcluded t counterID = searchID (ExcludeCounters (config t)) counterID"

primrec filterLoop :: "Transformer \<Rightarrow> MetricRecord list \<Rightarrow> MetricRecord list" where
  "filterLoop t [] = []"
| "filterLoop t (record # records) =
     (if isExcluded t (CounterID record) then filterLoop t records
      else if length (IncludeCounters (config t)) > 0 \<and> \<not> isIncluded t (CounterID record)
        then filterLoop t records
      else record # filterLoop t records)"

definition filterRecords :: "Transformer \<Rightarrow> MetricRecord list \<Rightarrow> MetricRecord list" where
  "filterRecords t records =
     (if length (IncludeCounters (config t)) = 0 \<and> length (ExcludeCounters (config t)) = 0
      then records
      else filterLoop t records)"

text \<open>\<open>fmt.Sprintf("%s:%d", ifName, code)\<close>: the decimal digits of an \<open>int\<close>.\<close>

fun digitsOf :: "nat \<Rightarrow> string" where
  "digitsOf n = (if n < 10 then [char_of (48 + n)] else digitsOf (n div 10) @ [char_of (48 + n mod 10)])"

declare digitsOf.simps [simp del]

definition formatInt :: "int \<Rightarrow> string" where
  "formatInt i = (if i < 0 then CHR ''-'' # digitsOf (nat (- i)) else digitsOf (nat i))"

definition emitIf :: "bool \<Rightarrow> MetricRecord \<Rightarrow> MetricRecord list" where
  \<comment> \<open>\<open>if cond { records = append(records, r) }\<close>\<close>
  "emitIf cond r = (if cond then [r] else [])"

definition interfaceRecords ::
  "Transformer \<Rightarrow> time \<Rightarrow> string \<Rightarrow> InterfaceCheckStats \<Rightarrow> int \<Rightarrow> int \<Rightarrow> int \<Rightarrow> int
     \<Rightarrow> MetricRecord list" where
  "interfaceRecords t timestamp ifName ifStats totalCounter successCounter failedCounter
       resultCodeCounter =
     emitIf (InterfaceCheckStats.Total ifStats > 0)
       (createRecord t totalCounter (OfUint64 (InterfaceCheckStats.Total ifStats)) ifName timestamp)
     @ emitIf (InterfaceCheckStats.Success ifStats > 0)
       (createRecord t successCounter (OfUint64 (InterfaceCheckStats.Success ifStats)) ifName timestamp)
     @ emitIf (InterfaceCheckStats.Failed ifStats > 0)
       (createRecord t failedCounter (OfUint64 (InterfaceCheckStats.Failed ifStats)) ifName timestamp)
     @ concat (map (\<lambda>(code, count).
                 emitIf (count > 0)
                   (createRecord t resultCodeCounter (OfUint64 count)
                      (ifName @ '':'' @ formatInt code) timestamp))
               (InterfaceCheckStats.ByResultCode ifStats))"

definition byInterfaceRecords ::
  "Transformer \<Rightarrow> time \<Rightarrow> string \<times> InterfaceCheckStats \<Rightarrow> MetricRecord list" where
  "byInterfaceRecords t timestamp entry =
     (case entry of (ifName, ifStats) \<Rightarrow>
        if ifName = ''diameter'' then
          interfaceRecords t timestamp ifName ifStats CounterDiameterTotal CounterDiameterSuccess
            CounterDiameterFailed CounterDiameterResultCode
        else if ifName = ''http'' then
          interfaceRecords t timestamp ifName ifStats CounterHTTPTotal CounterHTTPSuccess
            CounterHTTPFailed CounterHTTPStatusCode
        else [])"

definition statusRecords :: "Transformer \<Rightarrow> time \<Rightarrow> (string, uint64) gomap \<Rightarrow> string \<Rightarrow> int
     \<Rightarrow> MetricRecord list" where
  \<comment> \<open>\<open>if count, ok := m[status]; ok && count > 0\<close>\<close>
  "statusRecords t timestamp m status counterID =
     (case map_of m status of
        None \<Rightarrow> []
      | Some count \<Rightarrow> emitIf (count > 0) (createRecord t counterID (OfUint64 count) [] timestamp))"

definition eirRecords :: "Transformer \<Rightarrow> EIRStats \<Rightarrow> time \<Rightarrow> MetricRecord list" where
  "eirRecords t eirStats timestamp =
     concat (map (byInterfaceRecords t timestamp)
               (EquipmentCheckStats.ByInterface (EquipmentChecks eirStats)))
     @ emitIf (Hits (CacheStats eirStats) > 0)
         (createRecord t CounterCacheHits (OfUint64 (Hits (CacheStats eirStats))) [] timestamp)
     @ emitIf (Misses (CacheStats eirStats) > 0)
         (createRecord t CounterCacheMisses (OfUint64 (Misses (CacheStats eirStats))) [] timestamp)
     @ emitIf (f64_gt_zero (HitRate (CacheStats eirStats)))
         (createRecord t CounterCacheHitRate (OfFloat64 (HitRate (CacheStats eirStats))) [] timestamp)
     @ emitIf (Size (CacheStats eirStats) > 0)
         (createRecord t CounterCacheSize (OfUint64 (Size (CacheStats eirStats))) [] timestamp)
     @ emitIf (Queries (DatabaseOps eirStats) > 0)
         (createRecord t CounterDBQueries (OfUint64 (Queries (DatabaseOps eirStats))) [] timestamp)
     @ emitIf (Inserts (DatabaseOps eirStats) > 0)
         (createRecord t CounterDBInserts (OfUint64 (Inserts (DatabaseOps eirStats))) [] timestamp)
     @ emitIf (Updates (DatabaseOps eirStats) > 0)
         (createRecord t CounterDBUpdates (OfUint64 (Updates (DatabaseOps eirStats))) [] timestamp)
     @ emitIf (Deletes (DatabaseOps eirStats) > 0)
         (createRecord t CounterDBDeletes (OfUint64 (Deletes (DatabaseOps eirStats))) [] timestamp)
     @ statusRecords t timestamp (ByEquipmentStatus eirStats) ''whitelisted'' CounterWhitelisted
     @ statusRecords t timestamp (ByEquipmentStatus eirStats) ''blacklisted'' CounterBlacklisted
     @ statusRecords t timestamp (ByEquipmentStatus eirStats) ''greylisted'' CounterGreylisted"

definition transformEIRStats ::
  "Transformer \<Rightarrow> EIRStats option \<Rightarrow> time \<Rightarrow> panic + MetricRecord list" where
  \<comment> \<open>The argument is a pointer; the first field read panics when it is nil.\<close>
  "transformEIRStats t eirStats timestamp =
     (case eirStats of
        None \<Rightarrow> Inl NilPointerDereference
      | Some e \<Rightarrow> Inr (eirRecords t e timestamp))"

definition generalRecords :: "Transformer \<Rightarrow> ServiceStats \<Rightarrow> MetricRecord list" where
  \<comment> \<open>The records \<open>Transform\<close> appends before it looks at \<open>CustomMetrics\<close>.\<close>
  "generalRecords t stats =
     (let timestamp = ServiceStats.Timestamp stats in
      [createRecord t CounterTotalRequests (OfUint64 (RequestStats.Total (Requests stats))) [] timestamp,
       createRecord t CounterSuccessfulRequests (OfUint64 (RequestStats.Success (Requests stats))) []
         timestamp,
       createRecord t CounterFailedRequests (OfUint64 (RequestStats.Failed (Requests stats))) []
         timestamp]
      @ emitIf (Pending (Requests stats) > 0)
          (createRecord t CounterPendingRequests (OfUint64 (Pending (Requests stats))) [] timestamp)
      @ emitIf (Active (Connections stats) > 0)
          (createRecord t CounterActiveConnections (OfUint64 (Active (Connections stats))) [] timestamp)
      @ emitIf (ConnectionStats.Total (Connections stats) > 0)
          (createRecord t CounterTotalConnections (OfUint64 (ConnectionStats.Total (Connections stats)))
             [] timestamp)
      @ emitIf (ConnectionStats.Failed (Connections stats) > 0)
          (createRecord t CounterFailedConnections
             (OfUint64 (ConnectionStats.Failed (Connections stats))) [] timestamp)
      @ emitIf (f64_gt_zero (RequestsPerSecond (Performance stats)))
          (createRecord t CounterRequestsPerSecond
             (OfFloat64 (RequestsPerSecond (Performance stats))) [] timestamp)
      @ emitIf (f64_gt_zero (PerformanceStats.AvgLatencyMs (Performance stats)))
          (createRecord t CounterAvgLatencyMs
             (OfFloat64 (PerformanceStats.AvgLatencyMs (Performance stats))) [] timestamp)
      @ emitIf (f64_gt_zero (MinLatencyMs (Performance stats)))
          (createRecord t CounterMinLatencyMs (OfFloat64 (MinLatencyMs (Performance stats))) [] timestamp)
      @ emitIf (f64_gt_zero (MaxLatencyMs (Performance stats)))
          (createRecord t CounterMaxLatencyMs (OfFloat64 (MaxLatencyMs (Performance stats))) [] timestamp)
      @ emitIf (f64_gt_zero (P50LatencyMs (Performance stats)))
          (createRecord t CounterP50LatencyMs (OfFloat64 (P50LatencyMs (Performance stats))) [] timestamp)
      @ emitIf (f64_gt_zero (P95LatencyMs (Performance stats)))
          (createRecord t CounterP95LatencyMs (OfFloat64 (P95LatencyMs (Performance stats))) [] timestamp)
      @ emitIf (f64_gt_zero (P99LatencyMs (Performance stats)))
          (createRecord t CounterP99LatencyMs (OfFloat64 (P99LatencyMs (Performance stats))) [] timestamp))"

definition Transform :: "Transformer \<Rightarrow> ServiceStats option \<Rightarrow> panic + MetricRecord list" where
  \<comment> \<open>\<open>stats\<close> is a pointer: \<open>stats.Timestamp\<close> panics when it is nil.\<close>
  "Transform t stats =
     (case stats of
        None \<Rightarrow> Inl NilPointerDereference
      | Some st \<Rightarrow>
          (case map_of (CustomMetrics st) ''eir'' of
             Some (AnyEIRStatsPtr eirStats) \<Rightarrow>
               (case transformEIRStats t eirStats (ServiceStats.Timestamp st) of
                  Inl e \<Rightarrow> Inl e
                | Inr rs \<Rightarrow> Inr (filterRecords t (generalRecords t st @ rs)))
           | _ \<Rightarrow> Inr (filterRecords t (generalRecords t st))))"


text \<open>The identifiers \<open>transformEIRStats\<close> can put on a record.\<close>

definition eirCounterIDs :: "int list" where
  "eirCounterIDs =
     [CounterDiameterTotal, CounterDiameterSuccess, CounterDiameterFailed, CounterDiameterResultCode,
      CounterHTTPTotal, CounterHTTPSuccess, CounterHTTPFailed, CounterHTTPStatusCode,
      CounterCacheHits, CounterCacheMisses, CounterCacheHitRate, CounterCacheSize,
      CounterDBQueries, CounterDBInserts, CounterDBUpdates, CounterDBDeletes,
      CounterWhitelisted, CounterBlacklisted, CounterGreylisted]"

text \<open>An identifier passes the configured filter: not excluded, and included if an
  include-list is configured.\<close>

definition passesFilter :: "Transformer \<Rightarrow> int \<Rightarrow> bool" where
  "passesFilter t counterID \<longleftrightarrow>
     counterID \<notin> set (ExcludeCounters (config t))
     \<and> (IncludeCounters (config t) = [] \<or> counterID \<in> set (IncludeCounters (config t)))"

section \<open>Export scheduler (scheduler.go)\<close>

text \<open>
  The scheduler keeps its exporters (each known by its name), its transformer, the
  running flag and the previous snapshot, a pointer that is nil until the first
  update.  What \<open>GetStats\<close> returns is an \<open>interface{}\<close>: nil, a
  \<open>*ServiceStats\<close> (possibly a nil pointer), or a value of another type, known by the
  name \<open>%T\<close> prints.
\<close>

record ExportScheduler =
  interval :: int
  exporters :: "string list"
  transformer :: Transformer
  running :: bool
  prevSnapshot :: "ServiceStats option"

datatype collected =
    CollectedNil
  | CollectedServiceStats "ServiceStats option"
  | CollectedOther string

datatype event =
    Errorw string
  | Debugw string
  | ExportCall string "MetricRecord list"

definition NewExportScheduler :: "int \<Rightarrow> Transformer \<Rightarrow> ExportScheduler" where
  "NewExportScheduler iv t =
     \<lparr>interval = iv, exporters = [], transformer = t, running = False, prevSnapshot = None\<rparr>"

definition AddExporter :: "ExportScheduler \<Rightarrow> string \<Rightarrow> ExportScheduler" where
  "AddExporter s exporter = s\<lparr>exporters := exporters s @ [exporter]\<rparr>"

definition calculateDeltaStats ::
  "ExportScheduler \<Rightarrow> ServiceStats option \<Rightarrow> panic + ServiceStats option" where
  \<comment> \<open>With no previous snapshot the current pointer is returned as it is; otherwise
      \<open>current.ServiceName\<close> is the first read through the current pointer.\<close>
  "calculateDeltaStats s current =
     (case prevSnapshot s of
        None \<Rightarrow> Inr current
      | Some prev \<Rightarrow>
          (case current of
             None \<Rightarrow> Inl NilPointerDereference
           | Some cur \<Rightarrow>
               (case deltaOf cur prev of Inl e \<Rightarrow> Inl e | Inr delta \<Rightarrow> Inr (Some delta))))"

definition updatePreviousSnapshot :: "ExportScheduler \<Rightarrow> ServiceStats option \<Rightarrow> ExportScheduler" where
  "updatePreviousSnapshot s current = s\<lparr>prevSnapshot := current\<rparr>"

text \<open>
  \<open>exportToExporter\<close>: one call of the exporter's \<open>Export\<close>, whose outcome (an error
  message or none) is given by \<open>export\<close>, and the log line that reports it.
\<close>

definition exportToExporter ::
  "(string \<Rightarrow> MetricRecord list \<Rightarrow> string option) \<Rightarrow> string \<Rightarrow> MetricRecord list \<Rightarrow> event list" where
  "exportToExporter export exporter records =
     (case export exporter records of
        Some err \<Rightarrow> [ExportCall exporter records, Errorw ''Failed to export metrics'']
      | None \<Rightarrow> [ExportCall exporter records, Debugw ''Successfully exported metrics''])"

text \<open>
  One export cycle, from the snapshot the collector returned: the new scheduler state
  and the events of the cycle, or the panic that ends it.  The exporters run in
  parallel in the source; their events are listed exporter by exporter.
\<close>

definition exportCycle ::
  "(string \<Rightarrow> MetricRecord list \<Rightarrow> string option) \<Rightarrow> ExportScheduler \<Rightarrow> collected
     \<Rightarrow> panic + ExportScheduler \<times> event list" where
  "exportCycle export s statsInterface =
     (case statsInterface of
        CollectedServiceStats currentStats \<Rightarrow>
          (case calculateDeltaStats s currentStats of
             Inl e \<Rightarrow> Inl e
           | Inr deltaStats \<Rightarrow>
               (case Transform (transformer s) deltaStats of
                  Inl e \<Rightarrow> Inl e
                | Inr records \<Rightarrow>
                    if length records = 0 then Inr (s, [Debugw ''No metrics to export''])
                    else
                      Inr (updatePreviousSnapshot s currentStats,
                           concat (map (\<lambda>exporter. exportToExporter export exporter records)
                                     (exporters s))
                           @ [Debugw ''Export cycle completed''])))
      | _ \<Rightarrow> Inr (s, [Errorw ''Failed to cast stats to ServiceStats'']))"


section \<open>Exporters (http\_exporter.go, postgres\_exporter.go, file\_exporter.go)\<close>

text \<open>
  An \<open>Export\<close> call returns its error (\<open>None\<close> for nil) and the input and output it
  performed, in order.  What the outside world answers is a parameter of the model:
  whether the context is done at each point where the code looks, what each request,
  statement or write returns, what \<open>json.Marshal\<close> makes of the records.
\<close>

datatype io =
    HTTPPost string
  | DBExec "MetricRecord list"
  | FileWrite string
  | Sleep
  | Lock
  | Unlock
  | Log string

record HTTPExporterConfig =
  Name :: string
  URL :: string
  RetryAttempts :: int

record HTTPWorld =
  marshal :: "MetricRecord list \<Rightarrow> string + string"
  ctxErr :: string
  doneBeforeAttempt :: "int \<Rightarrow> bool"
  sendRequest :: "int \<Rightarrow> string option"
  doneDuringDelay :: "int \<Rightarrow> bool"

text \<open>
  The retry loop \<open>for attempt := 1; attempt <= RetryAttempts; attempt++\<close>, by the
  number of iterations still to run.
\<close>

fun httpAttempts ::
  "HTTPExporterConfig \<Rightarrow> HTTPWorld \<Rightarrow> string \<Rightarrow> nat \<Rightarrow> int \<Rightarrow> string \<Rightarrow> string option \<times> io list" where
  "httpAttempts cfg w body 0 attempt lastErr =
     (Some (''failed after '' @ formatInt (RetryAttempts cfg) @ '' attempts: '' @ lastErr), [])"
| "httpAttempts cfg w body (Suc n) attempt lastErr =
     (if doneBeforeAttempt w attempt then (Some (ctxErr w), [])
      else
        (case sendRequest w attempt of
           None \<Rightarrow> (None, [HTTPPost body, Log ''Exported metrics via HTTP''])
         | Some err \<Rightarrow>
             if attempt < RetryAttempts cfg then
               (if doneDuringDelay w attempt
                then (Some (ctxErr w), [HTTPPost body, Log ''HTTP export attempt failed''])
                else
                  (case httpAttempts cfg w body n (attempt + 1) err of
                     (r, evs) \<Rightarrow>
                       (r, [HTTPPost body, Log ''HTTP export attempt failed'', Sleep] @ evs)))
             else
               (case httpAttempts cfg w body n (attempt + 1) err of
                  (r, evs) \<Rightarrow> (r, [HTTPPost body, Log ''HTTP export attempt failed''] @ evs))))"

definition HTTPExport ::
  "HTTPExporterConfig \<Rightarrow> HTTPWorld \<Rightarrow> MetricRecord list \<Rightarrow> string option \<times> io list" where
  "HTTPExport cfg w records =
     (if length records = 0 then (None, [])
      else
        (case marshal w records of
           Inl err \<Rightarrow> (Some (''failed to marshal records: '' @ err), [])
         | Inr body \<Rightarrow> httpAttempts cfg w body (nat (RetryAttempts cfg)) 1 ''%!w(<nil>)''))"

record PostgresExporterConfig =
  Name :: string
  TableName :: string
  BatchSize :: int
  MaxRetry :: int

record PostgresWorld =
  ctxErr :: string
  execContext :: "MetricRecord list \<Rightarrow> int \<Rightarrow> string option"
  doneDuringDelay :: "MetricRecord list \<Rightarrow> int \<Rightarrow> bool"

fun insertAttempts ::
  "PostgresExporterConfig \<Rightarrow> PostgresWorld \<Rightarrow> MetricRecord list \<Rightarrow> nat \<Rightarrow> int \<Rightarrow> string
     \<Rightarrow> string option \<times> io list" where
  "insertAttempts cfg w batch 0 attempt lastErr =
     (Some (''failed after '' @ formatInt (MaxRetry cfg) @ '' attempts: '' @ lastErr), [])"
| "insertAttempts cfg w batch (Suc n) attempt lastErr =
     (case execContext w batch attempt of
        None \<Rightarrow> (None, [DBExec batch])
      | Some err \<Rightarrow>
          if attempt < MaxRetry cfg then
            (if doneDuringDelay w batch attempt
             then (Some (PostgresWorld.ctxErr w), [DBExec batch, Log ''PostgreSQL insert attempt failed''])
             else
               (case insertAttempts cfg w batch n (attempt + 1) err of
                  (r, evs) \<Rightarrow>
                    (r, [DBExec batch, Log ''PostgreSQL insert attempt failed'', Sleep] @ evs)))
          else
            (case insertAttempts cfg w batch n (attempt + 1) err of
               (r, evs) \<Rightarrow> (r, [DBExec batch, Log ''PostgreSQL insert attempt failed''] @ evs)))"

definition insertBatch ::
  "PostgresExporterConfig \<Rightarrow> PostgresWorld \<Rightarrow> MetricRecord list \<Rightarrow> string option \<times> io list" where
  "insertBatch cfg w records =
     (if length records = 0 then (None, [])
      else insertAttempts cfg w records (nat (MaxRetry cfg)) 1 ''%!w(<nil>)'')"

text \<open>
  The batch loop \<open>for i := 0; i < len(records); i += BatchSize\<close>.  With a batch size of
  zero it never advances, so the loop runs on fuel and \<open>None\<close> stands for a call
  that has not returned; with a negative batch size the slice \<open>records[i:end]\<close> panics.
\<close>

fun batchLoop ::
  "PostgresExporterConfig \<Rightarrow> PostgresWorld \<Rightarrow> MetricRecord list \<Rightarrow> nat \<Rightarrow> int
     \<Rightarrow> (panic + string option \<times> io list) option" where
  "batchLoop cfg w records 0 i = None"
| "batchLoop cfg w records (Suc fuel) i =
     (if i < int (length records) then
        (let end' = (if i + BatchSize cfg > int (length records) then int (length records)
                     else i + BatchSize cfg)
         in if end' < i then Some (Inl SliceBoundsOutOfRange)
            else
              (case insertBatch cfg w (take (nat end' - nat i) (drop (nat i) records)) of
                 (Some err, evs) \<Rightarrow> Some (Inr (Some (''failed to insert batch: '' @ err), evs))
               | (None, evs) \<Rightarrow>
                   (case batchLoop cfg w records fuel (i + BatchSize cfg) of
                      None \<Rightarrow> None
                    | Some (Inl e) \<Rightarrow> Some (Inl e)
                    | Some (Inr (r, evs')) \<Rightarrow> Some (Inr (r, evs @ evs')))))
      else Some (Inr (None, [Log ''Exported metrics to PostgreSQL''])))"

definition PostgresExport ::
  "PostgresExporterConfig \<Rightarrow> PostgresWorld \<Rightarrow> nat \<Rightarrow> MetricRecord list
     \<Rightarrow> (panic + string option \<times> io list) option" where
  "PostgresExport cfg w fuel records =
     (if length records = 0 then Some (Inr (None, []))
      else batchLoop cfg w records fuel 0)"

record FileWorld =
  ctxDone :: bool
  ctxErr :: string
  marshalRecord :: "MetricRecord \<Rightarrow> string + string"
  writeLine :: "string \<Rightarrow> string option"

text \<open>
  The write loop of the file exporter: a record that does not marshal is logged and
  skipped; a failed write ends the call.
\<close>

fun writeLoop :: "FileWorld \<Rightarrow> MetricRecord list \<Rightarrow> string option \<times> io list" where
  "writeLoop w [] = (None, [Log ''Exported metrics to file''])"
| "writeLoop w (record # records) =
     (case marshalRecord w record of
        Inl err \<Rightarrow>
          (case writeLoop w records of
             (r, evs) \<Rightarrow> (r, Log ''Failed to marshal metric record'' # evs))
      | Inr line \<Rightarrow>
          (case writeLine w (line @ [CHR 0x0A]) of
             Some err \<Rightarrow> (Some (''failed to write to file: '' @ err), [FileWrite (line @ [CHR 0x0A])])
           | None \<Rightarrow>
               (case writeLoop w records of
                  (r, evs) \<Rightarrow> (r, FileWrite (line @ [CHR 0x0A]) # evs))))"

definition FileExport :: "FileWorld \<Rightarrow> MetricRecord list \<Rightarrow> string option \<times> io list" where
  "FileExport w records =
     (if length records = 0 then (None, [])
      else if ctxDone w then (Some (FileWorld.ctxErr w), [Lock, Unlock])
      else (case writeLoop w records of (r, evs) \<Rightarrow> (r, [Lock] @ evs @ [Unlock])))"

text \<open>The network, database and file operations among the events of a call.\<close>

fun isTransfer :: "io \<Rightarrow> bool" where
  "isTransfer (HTTPPost _) = True"
| "isTransfer (DBExec _) = True"
| "isTransfer (FileWrite _) = True"
| "isTransfer _ = False"

section \<open>Sample values\<close>

text \<open>The zero values \<open>&ServiceStats{}\<close> and \<open>&EIRStats{}\<close>.\<close>

definition zeroServiceStats :: ServiceStats where
  "zeroServiceStats =
     \<lparr>ServiceName = [], ServiceVersion = [], Uptime = [], Timestamp = 0,
      Connections = \<lparr>ConnectionStats.Total = 0, Active = 0, Failed = 0, Closed = 0\<rparr>,
      Requests =
        \<lparr>RequestStats.Total = 0, Success = 0, Failed = 0, Pending = 0, BytesSent = 0,
         BytesRecv = 0, BySource = [], ByOperation = []\<rparr>,
      Performance =
        \<lparr>RequestsPerSecond = 0, AvgLatencyMs = 0, MinLatencyMs = 0, MaxLatencyMs = 0,
         P50LatencyMs = 0, P95LatencyMs = 0, P99LatencyMs = 0\<rparr>,
      Errors = \<lparr>ErrorStats.Total = 0, ByType = [], ByInterface = [], LastError = None\<rparr>,
      InterfaceStats = [],
      CustomMetrics = []\<rparr>"

definition zeroEIRStats :: EIRStats where
  "zeroEIRStats =
     \<lparr>EquipmentChecks =
        \<lparr>EquipmentCheckStats.Total = 0, Success = 0, Failed = 0, ByInterface = [],
         ByResultCode = []\<rparr>,
      DatabaseOps =
        \<lparr>Queries = 0, Inserts = 0, Updates = 0, Deletes = 0, Errors = 0, AvgLatencyMs = 0,
         ActiveQueries = 0\<rparr>,
      CacheStats = \<lparr>Hits = 0, Misses = 0, HitRate = 0, Size = 0, MaxSize = 0, Evictions = 0\<rparr>,
      ByEquipmentStatus = []\<rparr>"

text \<open>
  Snapshots: one with request counts only, the pair of the scheduler test reduced to
  the fields used here, one with gauges, and one shaped like the result of
  \<open>ParsePrometheusMetrics\<close>, whose \<open>"cache"\<close> and \<open>"eir"\<close> entries are struct values.
\<close>

definition requestStats :: ServiceStats where
  "requestStats =
     zeroServiceStats
       \<lparr>Requests :=
          (Requests zeroServiceStats)
            \<lparr>RequestStats.Total := 100, RequestStats.Success := 0, RequestStats.Failed := 5\<rparr>\<rparr>"




definition parsedEIRStats :: EIRStats where
  "parsedEIRStats =
     zeroEIRStats
       \<lparr>ByEquipmentStatus := [(''whitelisted'', 80), (''blacklisted'', 15), (''greylisted'', 5)]\<rparr>"

definition parsedStats :: ServiceStats where
  "parsedStats =
     zeroServiceStats
       \<lparr>ServiceName := ''EIR'',
        CustomMetrics :=
          [(''cache'', AnyCacheStats (CacheStats zeroEIRStats)),
           (''eir'', AnyEIRStats parsedEIRStats)]\<rparr>"

text \<open>A transformer without filter, one with both lists, and a scheduler on each.\<close>

definition plainTransformer :: Transformer where
  "plainTransformer = NewTransformer ''test-host'' ''EIR''"

definition listedTransformer :: Transformer where
  "listedTransformer =
     NewTransformerWithConfig ''test-host'' ''EIR''
       \<lparr>SampleRate = 0,
        IncludeCounters = [CounterTotalRequests, CounterSuccessfulRequests],
        ExcludeCounters = [CounterSuccessfulRequests]\<rparr>"


definition plainScheduler :: ExportScheduler where
  "plainScheduler = AddExporter (NewExportScheduler 30 plainTransformer) ''http''"



definition sampleRecord :: "int \<Rightarrow> uint64 \<Rightarrow> MetricRecord" where
  "sampleRecord counterID v = createRecord plainTransformer counterID (OfUint64 v) [] 0"


section \<open>Values of the identifiers\<close>

lemmas counter_ids =
  CounterTotalRequests_def CounterSuccessfulRequests_def CounterFailedRequests_def
  CounterPendingRequests_def CounterDiameterTotal_def CounterDiameterSuccess_def
  CounterDiameterFailed_def CounterDiameterResultCode_def CounterHTTPTotal_def
  CounterHTTPSuccess_def CounterHTTPFailed_def CounterHTTPStatusCode_def
  CounterRequestsPerSecond_def CounterAvgLatencyMs_def CounterMinLatencyMs_def
  CounterMaxLatencyMs_def CounterP50LatencyMs_def CounterP95LatencyMs_def
  CounterP99LatencyMs_def CounterCacheHits_def CounterCacheMisses_def CounterCacheHitRate_def
  CounterCacheSize_def CounterDBQueries_def CounterDBInserts_def CounterDBUpdates_def
  CounterDBDeletes_def CounterWhitelisted_def CounterBlacklisted_def CounterGreylisted_def
  CounterActiveConnections_def CounterTotalConnections_def CounterFailedConnections_def

section \<open>Saturating subtraction\<close>



section \<open>First cycle\<close>

text \<open>
  C4.  When no previous snapshot is stored, the delta engine returns the current
  snapshot itself: the very pointer it was given, nothing subtracted.
\<close>

theorem first_cycle_delta_is_current:
  "prevSnapshot s = None \<Longrightarrow> calculateDeltaStats s current = Inr current"
  by (simp add: calculateDeltaStats_def)

theorem first_cycle_delta_is_current_witness:
  "prevSnapshot plainScheduler = None
   \<and> calculateDeltaStats plainScheduler (Some zeroServiceStats) = Inr (Some zeroServiceStats)"
proof -
  have h: "prevSnapshot plainScheduler = None"
    by (simp add: plainScheduler_def AddExporter_def NewExportScheduler_def)
  from first_cycle_delta_is_current [OF h, of "Some zeroServiceStats"] h show ?thesis by simp
qed

section \<open>Include and exclude lists\<close>

lemma searchID_set: "searchID ids counterID \<longleftrightarrow> counterID \<in> set ids"
  by (induction ids) auto

lemma filterLoop_filter:
  "filterLoop t records = filter (\<lambda>r. passesFilter t (CounterID r)) records"
  by (induction records) (auto simp: isExcluded_def isIncluded_def searchID_set passesFilter_def)

lemma filterRecords_filter:
  "filterRecords t records = filter (\<lambda>r. passesFilter t (CounterID r)) records"
  by (auto simp: filterRecords_def filterLoop_filter passesFilter_def)

text \<open>
  C7.  The filter keeps exactly the records whose identifier is not on the exclude-list
  and is on the include-list if there is one, in their order.  An identifier on the
  exclude-list is dropped whether or not it is included; with both lists empty the
  records pass through unchanged.
\<close>

theorem filterRecords_survivors:
  "filterRecords t records =
     filter (\<lambda>r. CounterID r \<notin> set (ExcludeCounters (config t))
                 \<and> (IncludeCounters (config t) = []
                      \<or> CounterID r \<in> set (IncludeCounters (config t))))
       records
   \<and> (r \<in> set (filterRecords t records) \<longleftrightarrow>
        r \<in> set records \<and> CounterID r \<notin> set (ExcludeCounters (config t))
        \<and> (IncludeCounters (config t) = [] \<or> CounterID r \<in> set (IncludeCounters (config t))))
   \<and> (CounterID r \<in> set (ExcludeCounters (config t)) \<longrightarrow> r \<notin> set (filterRecords t records))
   \<and> (IncludeCounters (config t) = [] \<and> ExcludeCounters (config t) = []
        \<longrightarrow> filterRecords t records = records)"
  by (auto simp: filterRecords_filter passesFilter_def)

theorem filterRecords_survivors_witness:
  "CounterID (sampleRecord CounterSuccessfulRequests 90) \<in> set (ExcludeCounters (config listedTransformer))
   \<and> CounterID (sampleRecord CounterSuccessfulRequests 90) \<in> set (IncludeCounters (config listedTransformer))
   \<and> sampleRecord CounterSuccessfulRequests 90
        \<notin> set (filterRecords listedTransformer
                 [sampleRecord CounterTotalRequests 100, sampleRecord CounterSuccessfulRequests 90,
                  sampleRecord CounterFailedRequests 10])
   \<and> IncludeCounters (config plainTransformer) = [] \<and> ExcludeCounters (config plainTransformer) = []
   \<and> filterRecords plainTransformer
        [sampleRecord CounterTotalRequests 100, sampleRecord CounterSuccessfulRequests 90,
         sampleRecord CounterFailedRequests 10]
      = [sampleRecord CounterTotalRequests 100, sampleRecord CounterSuccessfulRequests 90,
         sampleRecord CounterFailedRequests 10]"
  using
    filterRecords_survivors [of listedTransformer
      "[sampleRecord CounterTotalRequests 100, sampleRecord CounterSuccessfulRequests 90,
        sampleRecord CounterFailedRequests 10]" "sampleRecord CounterSuccessfulRequests 90"]
    filterRecords_survivors [of plainTransformer
      "[sampleRecord CounterTotalRequests 100, sampleRecord CounterSuccessfulRequests 90,
        sampleRecord CounterFailedRequests 10]" "sampleRecord CounterSuccessfulRequests 90"]
  by (simp add: listedTransformer_def plainTransformer_def NewTransformer_def
      NewTransformerWithConfig_def sampleRecord_def createRecord_def)

section \<open>A snapshot of the wrong type\<close>

text \<open>
  A nil \<open>*ServiceStats\<close> passes the type assertion; the first read through it, in
  \<open>calculateDeltaStats\<close> or in \<open>Transform\<close>, panics.
\<close>

lemma exportCycle_nil_pointer:
  "exportCycle export s (CollectedServiceStats None) = Inl NilPointerDereference"
  by (simp add: exportCycle_def calculateDeltaStats_def Transform_def split: option.splits)



section \<open>Empty batches\<close>

text \<open>
  C9.  Each of the three exporters returns nil on an empty batch, before it marshals,
  takes its lock, looks at the context or touches its transport: the call performs no
  input or output at all.
\<close>

theorem Export_empty_batch:
  "HTTPExport hcfg hw [] = (None, [])
   \<and> PostgresExport pcfg pw fuel [] = Some (Inr (None, []))
   \<and> FileExport fw [] = (None, [])"
  by (simp add: HTTPExport_def PostgresExport_def FileExport_def)

section \<open>Records by identifier\<close>













lemma generalRecords_ids: "r \<in> set (generalRecords t st) \<Longrightarrow> CounterID r \<notin> set eirCounterIDs"
  unfolding generalRecords_def eirCounterIDs_def Let_def
  by (auto simp: emitIf_def createRecord_def counter_ids split: if_splits)




















section \<open>Gauges\<close>


lemma request_counters_declared:
  "CounterTotalRequests \<in> set counterIDs \<and> CounterSuccessfulRequests \<in> set counterIDs
   \<and> CounterFailedRequests \<in> set counterIDs"
  by (simp add: counterIDs_def GetCounterMetadata_def)




section \<open>Request counters\<close>

text \<open>
  C3.  The code at the failing input: with 100 requests of which none succeeded and 5
  failed, the result has a record for the successful requests with value 0.  The three
  request counters, of type \<open>"counter"\<close> in the metadata table, are appended without
  the test \<open>> 0\<close> that guards every other counter.
\<close>

theorem request_counters_emitted_at_zero:
  "Transform plainTransformer (Some requestStats) =
     Inr [sampleRecord CounterTotalRequests 100, sampleRecord CounterSuccessfulRequests 0,
          sampleRecord CounterFailedRequests 5]
   \<and> CounterSuccessfulRequests \<in> set counterIDs"
  using request_counters_declared
  by (simp add: Transform_def requestStats_def zeroServiceStats_def generalRecords_def emitIf_def
      f64_gt_zero_def filterRecords_def plainTransformer_def NewTransformer_def sampleRecord_def)

section \<open>Replacing the previous snapshot\<close>






section \<open>An \<open>"eir"\<close> entry that is not a pointer\<close>

lemma Transform_no_pointer:
  "map_of (CustomMetrics st) ''eir'' = Some v \<Longrightarrow> \<forall>p. v \<noteq> AnyEIRStatsPtr p \<Longrightarrow>
   Transform t (Some st) = Inr (filterRecords t (generalRecords t st))"
  by (cases v) (auto simp: Transform_def)

lemma Transform_no_entry:
  "map_of (CustomMetrics st) ''eir'' = None \<Longrightarrow>
   Transform t (Some st) = Inr (filterRecords t (generalRecords t st))"
  by (auto simp: Transform_def)

lemma filtered_general_ids:
  "r \<in> set (filterRecords t (generalRecords t st)) \<Longrightarrow> CounterID r \<notin> set eirCounterIDs"
  by (auto simp: filterRecords_filter dest: generalRecords_ids)

lemma CustomMetrics_deltaLiteral: "CustomMetrics (deltaLiteral cur prev) = []"
  by (simp add: deltaLiteral_def)

lemma deltaOf_no_pointer:
  "map_of (CustomMetrics cur) ''eir'' = Some v \<Longrightarrow> \<forall>p. v \<noteq> AnyEIRStatsPtr p \<Longrightarrow>
   deltaOf cur prev = Inr (deltaLiteral cur prev)"
  by (cases v) (auto simp: deltaOf_def deltaCustomMetrics_def deltaLiteral_def)

text \<open>
  C10, as stated, fails on the first cycle: with no previous snapshot the
  delta is the current snapshot itself, and its \<open>"eir"\<close> entry, a struct value, is
  still there.
\<close>

theorem first_cycle_keeps_entry_counterexample:
  "calculateDeltaStats plainScheduler (Some parsedStats) = Inr (Some parsedStats)
   \<and> map_of (CustomMetrics parsedStats) ''eir'' = Some (AnyEIRStats parsedEIRStats)"
  by (simp add: calculateDeltaStats_def plainScheduler_def AddExporter_def NewExportScheduler_def
      parsedStats_def)

text \<open>
  C10, amended.  When the \<open>"eir"\<close> entry of the current snapshot is not a
  \<open>*EIRStats\<close>, neither function fails.  The transformer returns the filtered general
  records only, none of which carries an identifier of the EIR block.  When a previous
  snapshot is stored, the delta has no \<open>"eir"\<close> entry and transforms to general
  records only; on the first cycle the delta is the current snapshot.
\<close>

theorem non_pointer_eir_is_skipped:
  assumes "map_of (CustomMetrics cur) ''eir'' = Some v" and "\<forall>p. v \<noteq> AnyEIRStatsPtr p"
  shows
  "Transform t (Some cur) = Inr (filterRecords t (generalRecords t cur))
   \<and> (\<forall>r \<in> set (filterRecords t (generalRecords t cur)). CounterID r \<notin> set eirCounterIDs)
   \<and> (prevSnapshot s = Some prev \<longrightarrow>
        calculateDeltaStats s (Some cur) = Inr (Some (deltaLiteral cur prev))
        \<and> map_of (CustomMetrics (deltaLiteral cur prev)) ''eir'' = None
        \<and> Transform t (Some (deltaLiteral cur prev)) =
            Inr (filterRecords t (generalRecords t (deltaLiteral cur prev)))
        \<and> (\<forall>r \<in> set (filterRecords t (generalRecords t (deltaLiteral cur prev))).
              CounterID r \<notin> set eirCounterIDs))
   \<and> (prevSnapshot s = None \<longrightarrow> calculateDeltaStats s (Some cur) = Inr (Some cur))"
  using assms
  by (auto simp: Transform_no_pointer Transform_no_entry CustomMetrics_deltaLiteral
      calculateDeltaStats_def deltaOf_no_pointer dest: filtered_general_ids)

theorem non_pointer_eir_is_skipped_witness:
  "map_of (CustomMetrics parsedStats) ''eir'' = Some (AnyEIRStats parsedEIRStats)
   \<and> (\<forall>p. AnyEIRStats parsedEIRStats \<noteq> AnyEIRStatsPtr p)
   \<and> prevSnapshot (updatePreviousSnapshot plainScheduler (Some parsedStats)) = Some parsedStats
   \<and> calculateDeltaStats (updatePreviousSnapshot plainScheduler (Some parsedStats)) (Some parsedStats)
       = Inr (Some (deltaLiteral parsedStats parsedStats))
   \<and> map_of (CustomMetrics (deltaLiteral parsedStats parsedStats)) ''eir'' = None
   \<and> Transform plainTransformer (Some parsedStats) =
       Inr (filterRecords plainTransformer (generalRecords plainTransformer parsedStats))"
proof -
  have e: "map_of (CustomMetrics parsedStats) ''eir'' = Some (AnyEIRStats parsedEIRStats)"
    by (simp add: parsedStats_def)
  have n: "\<forall>p. AnyEIRStats parsedEIRStats \<noteq> AnyEIRStatsPtr p" by simp
  have s: "prevSnapshot (updatePreviousSnapshot plainScheduler (Some parsedStats)) = Some parsedStats"
    by (simp add: updatePreviousSnapshot_def)
  from non_pointer_eir_is_skipped [OF e n, of plainTransformer
      "updatePreviousSnapshot plainScheduler (Some parsedStats)" parsedStats] e n s
  show ?thesis by simp
qed

section \<open>Dimensioned breakdown maps\<close>

























end
